theory Spec2Isabelle
  imports Complex_Main
begin

section \<open>Common data: time, decimal rendering, JSON replies\<close>

text \<open>
  \<open>Date.now()\<close> is an integer number of milliseconds since the epoch. Every reading of
  the clock a handler makes is a parameter of its model, in the order the source reads it.
\<close>

type_synonym epoch_ms = int

text \<open>
  \<open>Number.prototype.toString()\<close> on an integral number: the decimal digits, with a
  leading minus sign for a negative one.
\<close>

fun digits10 :: "nat \<Rightarrow> string" where
  "digits10 n =
     (if n < 10 then [''0123456789'' ! n]
      else digits10 (n div 10) @ [''0123456789'' ! (n mod 10)])"

declare digits10.simps [simp del]

definition toString :: "int \<Rightarrow> string" where
  "toString i = (if i < 0 then CHR ''-'' # digits10 (nat (- i)) else digits10 (nat i))"

text \<open>
  JavaScript truthiness of a request field of string type: \<open>undefined\<close> (the field is
  absent) and the empty string are falsy. Of a numeric field: absent and zero are falsy.
\<close>

definition truthy :: "string option \<Rightarrow> bool" where
  "truthy v = (case v of None \<Rightarrow> False | Some s \<Rightarrow> s \<noteq> [])"

definition truthy_num :: "rat option \<Rightarrow> bool" where
  "truthy_num v = (case v of None \<Rightarrow> False | Some q \<Rightarrow> q \<noteq> 0)"

text \<open>
  A JSON reply of the server: the HTTP status (200 where the source calls \<open>res.json\<close>
  without \<open>res.status\<close>) and the keys of the body; a key the body does not have is
  \<open>None\<close>. The payload is the key that differs from route to route.
\<close>

record 'p reply =
  r_status :: nat
  r_success :: "bool option"
  r_error :: "string option"
  r_message :: "string option"
  r_payload :: "'p option"

section \<open>api-backend/server.js: the OTP endpoints\<close>

record otp_entry =
  code :: string
  expiresAt :: epoch_ms

text \<open>\<open>otpStore\<close>: a \<open>Map\<close> from phone to \<open>{ code, expiresAt }\<close>.\<close>

type_synonym otpStore = "string \<rightharpoonup> otp_entry"

text \<open>
  \<open>genOtp\<close>: \<open>Math.floor(100000 + Math.random() * 900000).toString()\<close>. The value drawn
  by \<open>Math.random()\<close> is the parameter, taken as an exact rational in \<open>[0, 1)\<close>.
\<close>

definition genOtp :: "rat \<Rightarrow> string" where
  "genOtp rnd = toString \<lfloor>100000 + rnd * 900000\<rfloor>"

text \<open>
  What \<open>twilioClient.messages.create\<close> did: it resolved with a message that has a
  \<open>sid\<close>, or it rejected.
\<close>

datatype twilio_outcome = MessageSent string | TwilioError string

datatype otp_payload = EchoedCode string | MessageSid string

text \<open>
  \<open>POST /send-otp\<close>. \<open>twilioClient\<close> is \<open>None\<close> when the Twilio environment is not
  set, otherwise it carries the outcome of the one delivery attempt. The store is written
  before the client is looked at.
\<close>

definition post_send_otp ::
  "twilio_outcome option \<Rightarrow> rat \<Rightarrow> epoch_ms \<Rightarrow> string option \<Rightarrow> otpStore
     \<Rightarrow> otp_payload reply \<times> otpStore" where
  "post_send_otp twilioClient rnd now phone store =
     (if \<not> truthy phone then
        (\<lparr>r_status = 400, r_success = None, r_error = Some ''phone required'',
          r_message = None, r_payload = None\<rparr>, store)
      else
        let c = genOtp rnd;
            e = now + 5 * 60 * 1000;
            store' = store(the phone \<mapsto> \<lparr>code = c, expiresAt = e\<rparr>)
        in (case twilioClient of
              None \<Rightarrow>
                (\<lparr>r_status = 200, r_success = Some True, r_error = None,
                  r_message = Some ''OTP generated (not sent - twilio not configured)'',
                  r_payload = Some (EchoedCode c)\<rparr>, store')
            | Some (MessageSent sid) \<Rightarrow>
                (\<lparr>r_status = 200, r_success = Some True, r_error = None,
                  r_message = None, r_payload = Some (MessageSid sid)\<rparr>, store')
            | Some (TwilioError err) \<Rightarrow>
                (\<lparr>r_status = 500, r_success = Some False, r_error = Some ''Failed to send SMS'',
                  r_message = None, r_payload = None\<rparr>, store')))"

text \<open>
  \<open>POST /verify-otp\<close>: the four early returns of the source in their order, then the
  success path, which deletes the entry.
\<close>

definition post_verify_otp ::
  "epoch_ms \<Rightarrow> string option \<Rightarrow> string option \<Rightarrow> otpStore \<Rightarrow> unit reply \<times> otpStore" where
  "post_verify_otp now phone submitted store =
     (if \<not> truthy phone \<or> \<not> truthy submitted then
        (\<lparr>r_status = 400, r_success = None, r_error = Some ''phone and code required'',
          r_message = None, r_payload = None\<rparr>, store)
      else
        (case store (the phone) of
           None \<Rightarrow>
             (\<lparr>r_status = 400, r_success = Some False, r_error = Some ''No code found'',
               r_message = None, r_payload = None\<rparr>, store)
         | Some entry \<Rightarrow>
             if now > expiresAt entry then
               (\<lparr>r_status = 400, r_success = Some False, r_error = Some ''Code expired'',
                 r_message = None, r_payload = None\<rparr>, store(the phone := None))
             else if code entry \<noteq> the submitted then
               (\<lparr>r_status = 400, r_success = Some False, r_error = Some ''Invalid code'',
                 r_message = None, r_payload = None\<rparr>, store)
             else
               (\<lparr>r_status = 200, r_success = Some True, r_error = None,
                 r_message = Some ''Verified'', r_payload = None\<rparr>, store(the phone := None))))"

text \<open>The failures of the error taxonomy, as the replies that carry them.\<close>

definition NotFound :: "unit reply" where
  "NotFound = \<lparr>r_status = 400, r_success = Some False, r_error = Some ''No code found'',
     r_message = None, r_payload = None\<rparr>"

definition Expired :: "unit reply" where
  "Expired = \<lparr>r_status = 400, r_success = Some False, r_error = Some ''Code expired'',
     r_message = None, r_payload = None\<rparr>"

definition Mismatch :: "unit reply" where
  "Mismatch = \<lparr>r_status = 400, r_success = Some False, r_error = Some ''Invalid code'',
     r_message = None, r_payload = None\<rparr>"

definition Verified :: "unit reply" where
  "Verified = \<lparr>r_status = 200, r_success = Some True, r_error = None,
     r_message = Some ''Verified'', r_payload = None\<rparr>"

section \<open>api-backend/server.js: market status, market prices, harvest requests\<close>

text \<open>
  A MongoDB collection is the list of its documents in insertion order. A call of the
  driver either returns or throws; a route makes its calls inside one \<open>try\<close> block whose
  \<open>catch\<close> answers 500, so one flag per request says whether a call of the driver threw
  (a call that throws leaves the collection as it was).
\<close>

datatype db_outcome = DbOk | DbThrows

definition server_error :: "'p reply" where
  "server_error = \<lparr>r_status = 500, r_success = Some False, r_error = Some ''Server error'',
     r_message = None, r_payload = None\<rparr>"

text \<open>\<open>collection.findOne(filter)\<close>: the first document that matches, or \<open>null\<close>.\<close>

definition findOne :: "('d \<Rightarrow> bool) \<Rightarrow> 'd list \<Rightarrow> 'd option" where
  "findOne flt coll = List.find flt coll"

text \<open>
  \<open>collection.updateOne(filter, { $set: doc' }, { upsert: true })\<close>: the first document
  that matches gets the fields of \<open>$set\<close>; when none matches, a document with those
  fields is inserted.
\<close>

fun updateOne_upsert :: "('d \<Rightarrow> bool) \<Rightarrow> ('d \<Rightarrow> 'd) \<Rightarrow> 'd \<Rightarrow> 'd list \<Rightarrow> 'd list" where
  "updateOne_upsert flt set_fields inserted [] = [inserted]"
| "updateOne_upsert flt set_fields inserted (d # ds) =
     (if flt d then set_fields d # ds else d # updateOne_upsert flt set_fields inserted ds)"

subsection \<open>Market status\<close>

record meta_doc =
  meta_key :: string
  meta_value :: bool

text \<open>\<open>GET /market-status\<close>: \<open>doc ? !!doc.value : true\<close>.\<close>

definition get_market_status :: "db_outcome \<Rightarrow> meta_doc list \<Rightarrow> bool reply" where
  "get_market_status db app_meta =
     (case db of
        DbThrows \<Rightarrow> server_error
      | DbOk \<Rightarrow>
          let doc = findOne (\<lambda>d. meta_key d = ''market_status'') app_meta;
              status = (case doc of Some d \<Rightarrow> meta_value d | None \<Rightarrow> True)
          in \<lparr>r_status = 200, r_success = Some True, r_error = None, r_message = None,
               r_payload = Some status\<rparr>)"

text \<open>
  \<open>POST /market-status\<close>: \<open>isOpen\<close> is the field of the body (\<open>None\<close> when absent, and
  \<open>!!undefined\<close> is \<open>false\<close>).
\<close>

definition post_market_status ::
  "db_outcome \<Rightarrow> bool option \<Rightarrow> meta_doc list \<Rightarrow> bool reply \<times> meta_doc list" where
  "post_market_status db isOpen app_meta =
     (case db of
        DbThrows \<Rightarrow> (server_error, app_meta)
      | DbOk \<Rightarrow>
          let v = (case isOpen of Some b \<Rightarrow> b | None \<Rightarrow> False)
          in (\<lparr>r_status = 200, r_success = Some True, r_error = None, r_message = None,
                r_payload = Some v\<rparr>,
              updateOne_upsert (\<lambda>d. meta_key d = ''market_status'')
                (\<lambda>d. d\<lparr>meta_value := v\<rparr>)
                \<lparr>meta_key = ''market_status'', meta_value = v\<rparr> app_meta))"

subsection \<open>Market prices\<close>

text \<open>
  \<open>ShrimpPrice\<close>: \<open>{ grade, price, previousPrice, updatedAt }\<close>. \<open>previousPrice\<close> is
  \<open>None\<close> for \<open>null\<close> or an absent key; \<open>updatedAt\<close> is written by the server only.
\<close>

record ShrimpPrice =
  sp_grade :: string
  sp_price :: rat
  sp_previousPrice :: "rat option"
  sp_updatedAt :: "epoch_ms option"

text \<open>\<open>GET /market-prices\<close>: the bare array of the collection.\<close>

definition get_market_prices :: "db_outcome \<Rightarrow> ShrimpPrice list \<Rightarrow> ShrimpPrice list reply" where
  "get_market_prices db pricesColl =
     (case db of
        DbThrows \<Rightarrow> server_error
      | DbOk \<Rightarrow> \<lparr>r_status = 200, r_success = None, r_error = None, r_message = None,
                 r_payload = Some pricesColl\<rparr>)"

text \<open>
  \<open>PATCH /market-prices\<close>. \<open>price\<close> is \<open>None\<close> when \<open>typeof price !== 'number'\<close>. The
  payload check comes before the first call of the driver.
\<close>

definition patch_market_prices ::
  "db_outcome \<Rightarrow> epoch_ms \<Rightarrow> string option \<Rightarrow> rat option \<Rightarrow> ShrimpPrice list
     \<Rightarrow> ShrimpPrice reply \<times> ShrimpPrice list" where
  "patch_market_prices db now grade price pricesColl =
     (if \<not> truthy grade \<or> price = None then
        (\<lparr>r_status = 400, r_success = Some False, r_error = Some ''Invalid payload'',
          r_message = None, r_payload = None\<rparr>, pricesColl)
      else
        (case db of
           DbThrows \<Rightarrow> (server_error, pricesColl)
         | DbOk \<Rightarrow>
             let existing = findOne (\<lambda>d. sp_grade d = the grade) pricesColl;
                 previousPrice = (case existing of Some e \<Rightarrow> Some (sp_price e) | None \<Rightarrow> None);
                 updated = \<lparr>sp_grade = the grade, sp_price = the price,
                            sp_previousPrice = previousPrice, sp_updatedAt = Some now\<rparr>
             in (\<lparr>r_status = 200, r_success = Some True, r_error = None, r_message = None,
                   r_payload = Some updated\<rparr>,
                 updateOne_upsert (\<lambda>d. sp_grade d = the grade)
                   (\<lambda>d. d\<lparr>sp_grade := sp_grade updated, sp_price := sp_price updated,
                           sp_previousPrice := sp_previousPrice updated,
                           sp_updatedAt := sp_updatedAt updated\<rparr>)
                   updated pricesColl)))"

subsection \<open>Harvest requests\<close>

text \<open>
  The body of a submission, at the declared types of its fields (\<open>None\<close>: the key is
  absent). The stored request is the body spread into a new object, followed by \<open>id\<close>,
  \<open>status\<close> and \<open>timestamp\<close>: a record that extends the body.
\<close>

record harvest_data =
  farmerId :: "string option"
  grade :: "string option"
  quantity :: "rat option"
  location :: "string option"

record HarvestRequest = harvest_data +
  req_id :: string
  status :: string
  timestamp :: epoch_ms

text \<open>
  \<open>POST /harvest-requests\<close>. The source reads the clock twice, for the id and then for
  the timestamp; \<open>suffix\<close> is \<open>Math.random().toString(36).substr(2, 9)\<close>.
\<close>

definition post_harvest_requests ::
  "db_outcome \<Rightarrow> epoch_ms \<Rightarrow> string \<Rightarrow> epoch_ms \<Rightarrow> harvest_data \<Rightarrow> HarvestRequest list
     \<Rightarrow> HarvestRequest reply \<times> HarvestRequest list" where
  "post_harvest_requests db now_id suffix now_ts data harvestColl =
     (if \<not> truthy (farmerId data) \<or> \<not> truthy (grade data) \<or> \<not> truthy_num (quantity data) then
        (\<lparr>r_status = 400, r_success = Some False, r_error = Some ''Missing fields'',
          r_message = None, r_payload = None\<rparr>, harvestColl)
      else
        (case db of
           DbThrows \<Rightarrow> (server_error, harvestColl)
         | DbOk \<Rightarrow>
             let newReq = \<lparr>farmerId = farmerId data, grade = grade data,
                           quantity = quantity data, location = location data,
                           req_id = ''req_'' @ toString now_id @ ''_'' @ suffix,
                           status = ''Pending Approval'',
                           timestamp = now_ts\<rparr>
             in (\<lparr>r_status = 201, r_success = Some True, r_error = None, r_message = None,
                   r_payload = Some newReq\<rparr>,
                 harvestColl @ [newReq])))"

text \<open>
  \<open>GET /harvest-requests\<close>. \<open>query\<close> is \<open>req.query.farmerId\<close>; an absent or empty
  parameter gives the filter \<open>{}\<close>, which every document matches.
  \<open>find(filter).sort({ timestamp: -1 })\<close> is the matching documents by descending
  timestamp.
\<close>

definition find_sorted :: "string option \<Rightarrow> HarvestRequest list \<Rightarrow> HarvestRequest list" where
  "find_sorted flt coll =
     sort_key (\<lambda>d. - timestamp d)
       (filter (\<lambda>d. case flt of None \<Rightarrow> True | Some f \<Rightarrow> farmerId d = Some f) coll)"

definition get_harvest_requests ::
  "db_outcome \<Rightarrow> string option \<Rightarrow> HarvestRequest list \<Rightarrow> HarvestRequest list reply" where
  "get_harvest_requests db query harvestColl =
     (case db of
        DbThrows \<Rightarrow> server_error
      | DbOk \<Rightarrow>
          let flt = (if truthy query then query else None);
              requests = find_sorted flt harvestColl
          in \<lparr>r_status = 200, r_success = None, r_error = None, r_message = None,
               r_payload = Some requests\<rparr>)"

section \<open>services/apiService.ts: the client facade\<close>

text \<open>
  \<open>import.meta.env\<close>: the two variables the module reads (\<open>None\<close>: not set).
\<close>

record import_meta_env =
  VITE_API_BASE_URL :: "string option"
  VITE_API_BASE :: "string option"

text \<open>
  \<open>API_BASE = VITE_API_BASE_URL || VITE_API_BASE || 'http://localhost:4000'\<close>: the first
  truthy operand.
\<close>

definition API_BASE :: "import_meta_env \<Rightarrow> string" where
  "API_BASE env =
     (if truthy (VITE_API_BASE_URL env) then the (VITE_API_BASE_URL env)
      else if truthy (VITE_API_BASE env) then the (VITE_API_BASE env)
      else ''http://localhost:4000'')"

datatype js_error = Error string

text \<open>
  The browser as the facade sees it: the three keys of \<open>localStorage\<close> the module owns
  (\<open>None\<close>: \<open>getItem\<close> returns \<open>null\<close>), and the URLs handed to \<open>fetch\<close>, oldest
  first. A key holds the value the module last stored under it: \<open>JSON.stringify\<close>
  followed by \<open>JSON.parse\<close> gives the value back.
\<close>

record browser =
  harvest_requests_key :: "HarvestRequest list option"
  market_prices_key :: "ShrimpPrice list option"
  market_status_key :: "bool option"
  fetched :: "string list"

text \<open>
  What \<open>fetch\<close> did: it rejected, or it resolved with a response (\<open>ok\<close>, \<open>status\<close>,
  \<open>statusText\<close>, the body as text, and the body as parsed by
  \<open>res.json().catch(() => null)\<close>: \<open>None\<close> is \<open>null\<close>).
\<close>

datatype 'w fetch_result =
    Rejected js_error
  | Resolved bool nat string string "'w option"

text \<open>
  The shapes a parsed body can have for an operation that expects an \<open>'a\<close>: the bare
  value, the envelope \<open>{ success, <field>? }\<close>, or any other JSON value (with its
  truthiness).
\<close>

datatype 'a wire = Bare 'a | Enveloped bool "'a option" | Other bool

text \<open>
  A fallback runs on the browser and returns a value or throws. \<open>withLatency\<close> only
  delays the value.
\<close>

type_synonym 'w fallback = "browser \<Rightarrow> (js_error + 'w) \<times> browser"

definition withLatency :: "'a \<Rightarrow> 'a" where
  "withLatency data = data"

definition startsWith :: "string \<Rightarrow> string \<Rightarrow> bool" where
  "startsWith s p = (take (length p) s = p)"

text \<open>\<open>API_BASE.replace(/\/$/, '')\<close>: one slash at the end is dropped.\<close>

definition strip_trailing_slash :: "string \<Rightarrow> string" where
  "strip_trailing_slash s = (if s \<noteq> [] \<and> last s = CHR ''/'' then butlast s else s)"

definition build_url :: "string \<Rightarrow> string \<Rightarrow> string" where
  "build_url base path =
     (if startsWith path ''http'' then path
      else strip_trailing_slash base @ (if startsWith path ''/'' then [] else ''/'') @ path)"

text \<open>
  The \<open>catch (err)\<close> block of \<open>tryFetch\<close>: with a fallback, the fallback is called, and
  when it throws, \<open>err\<close> is thrown again; without one, \<open>err\<close> is thrown.
\<close>

definition tryFetch_catch ::
  "js_error \<Rightarrow> 'w fallback option \<Rightarrow> browser \<Rightarrow> (js_error + 'w option) \<times> browser" where
  "tryFetch_catch err fb b =
     (case fb of
        None \<Rightarrow> (Inl err, b)
      | Some f \<Rightarrow>
          (case f b of
             (Inl e, b') \<Rightarrow> (Inl err, b')
           | (Inr v, b') \<Rightarrow> (Inr (Some v), b')))"

text \<open>
  \<open>return Promise.resolve(fallback())\<close> inside the \<open>try\<close> block: a fallback that throws
  there throws into the \<open>catch\<close> block of the same \<open>try\<close>.
\<close>

definition tryFetch_fallback_in_try ::
  "'w fallback \<Rightarrow> 'w fallback option \<Rightarrow> browser \<Rightarrow> (js_error + 'w option) \<times> browser" where
  "tryFetch_fallback_in_try f fb b =
     (case f b of
        (Inl e, b') \<Rightarrow> tryFetch_catch e fb b'
      | (Inr v, b') \<Rightarrow> (Inr (Some v), b'))"

definition tryFetch ::
  "import_meta_env \<Rightarrow> string \<Rightarrow> 'w fetch_result \<Rightarrow> 'w fallback option \<Rightarrow> browser
     \<Rightarrow> (js_error + 'w option) \<times> browser" where
  "tryFetch env path res fb b =
     (if API_BASE env = [] then
        (case fb of
           Some f \<Rightarrow>
             (case f b of (Inl e, b') \<Rightarrow> (Inl e, b') | (Inr v, b') \<Rightarrow> (Inr (Some v), b'))
         | None \<Rightarrow> (Inl (Error ''No API base configured and no fallback provided.''), b))
      else
        let url = build_url (API_BASE env) path;
            b1 = b\<lparr>fetched := fetched b @ [url]\<rparr>
        in (case res of
              Rejected err \<Rightarrow> tryFetch_catch err fb b1
            | Resolved ok st statusText text data \<Rightarrow>
                if \<not> ok then
                  (case fb of
                     Some f \<Rightarrow> tryFetch_fallback_in_try f fb b1
                   | None \<Rightarrow>
                       tryFetch_catch
                         (Error (''Request failed: '' @ toString (int st) @ '' '' @ statusText
                                  @ '' '' @ text)) fb b1)
                else
                  (case (data, fb) of
                     (None, Some f) \<Rightarrow> tryFetch_fallback_in_try f fb b1
                   | _ \<Rightarrow> (Inr data, b1))))"

subsection \<open>Local persistence\<close>

text \<open>
  \<open>getPricesDb\<close>: the stored list, or on first access the defaults, which it stores.
  \<open>MOCK_SHRIMP_PRICES\<close> comes from \<open>../constants\<close> and is a parameter here.
\<close>

definition getPricesDb :: "ShrimpPrice list \<Rightarrow> browser \<Rightarrow> ShrimpPrice list \<times> browser" where
  "getPricesDb MOCK_SHRIMP_PRICES b =
     (case market_prices_key b of
        Some db \<Rightarrow> (db, b)
      | None \<Rightarrow>
          let initialPrices = map (\<lambda>p. p) MOCK_SHRIMP_PRICES
          in (initialPrices, b\<lparr>market_prices_key := Some initialPrices\<rparr>))"

definition savePricesDb :: "ShrimpPrice list \<Rightarrow> browser \<Rightarrow> browser" where
  "savePricesDb db b = b\<lparr>market_prices_key := Some db\<rparr>"

text \<open>\<open>Array.prototype.findIndex\<close>: \<open>None\<close> is \<open>-1\<close>.\<close>

fun findIndex :: "('a \<Rightarrow> bool) \<Rightarrow> 'a list \<Rightarrow> nat option" where
  "findIndex P [] = None"
| "findIndex P (x # xs) = (if P x then Some 0 else map_option Suc (findIndex P xs))"

subsection \<open>Market status and prices\<close>

definition getMarketStatus_fallback :: "bool wire fallback" where
  "getMarketStatus_fallback b =
     (let status = market_status_key b
      in (Inr (withLatency (Bare (case status of Some v \<Rightarrow> v | None \<Rightarrow> True))), b))"

text \<open>
  The \<open>then\<close> of \<open>getMarketStatus\<close>: a boolean as it is, the boolean \<open>status\<close> of an
  envelope, otherwise \<open>Boolean(r)\<close>.
\<close>

definition getMarketStatus_then :: "bool wire option \<Rightarrow> bool" where
  "getMarketStatus_then r =
     (case r of
        Some (Bare v) \<Rightarrow> v
      | Some (Enveloped s (Some v)) \<Rightarrow> v
      | Some (Enveloped s None) \<Rightarrow> True
      | Some (Other t) \<Rightarrow> t
      | None \<Rightarrow> False)"

definition getMarketStatus ::
  "import_meta_env \<Rightarrow> bool wire fetch_result \<Rightarrow> browser \<Rightarrow> (js_error + bool) \<times> browser" where
  "getMarketStatus env res b =
     (case tryFetch env ''/market-status'' res (Some getMarketStatus_fallback) b of
        (Inl e, b') \<Rightarrow> (Inl e, b')
      | (Inr r, b') \<Rightarrow> (Inr (getMarketStatus_then r), b'))"

definition getMarketPrices_fallback :: "ShrimpPrice list \<Rightarrow> ShrimpPrice list wire fallback" where
  "getMarketPrices_fallback MOCK_SHRIMP_PRICES b =
     (case getPricesDb MOCK_SHRIMP_PRICES b of (db, b') \<Rightarrow> (Inr (withLatency (Bare db)), b'))"

definition getMarketPrices ::
  "import_meta_env \<Rightarrow> ShrimpPrice list \<Rightarrow> ShrimpPrice list wire fetch_result \<Rightarrow> browser
     \<Rightarrow> (js_error + ShrimpPrice list) \<times> browser" where
  "getMarketPrices env MOCK_SHRIMP_PRICES res b =
     (case tryFetch env ''/market-prices'' res
             (Some (getMarketPrices_fallback MOCK_SHRIMP_PRICES)) b of
        (Inl e, b') \<Rightarrow> (Inl e, b')
      | (Inr r, b') \<Rightarrow>
          (case r of
             Some (Bare prices) \<Rightarrow> (Inr prices, b')
           | Some (Enveloped s (Some prices)) \<Rightarrow> (Inr prices, b')
           | _ \<Rightarrow> (case getPricesDb MOCK_SHRIMP_PRICES b' of (db, b'') \<Rightarrow> (Inr db, b''))))"

definition updateMarketPrice_fallback ::
  "ShrimpPrice list \<Rightarrow> string \<Rightarrow> rat \<Rightarrow> ShrimpPrice wire fallback" where
  "updateMarketPrice_fallback MOCK_SHRIMP_PRICES g newPrice b =
     (case getPricesDb MOCK_SHRIMP_PRICES b of
        (db, b') \<Rightarrow>
          (case findIndex (\<lambda>p. sp_grade p = g) db of
             None \<Rightarrow> (Inl (Error ''Price for grade not found''), b')
           | Some idx \<Rightarrow>
               let old = sp_price (db ! idx);
                   updated = (db ! idx)\<lparr>sp_price := newPrice, sp_previousPrice := Some old\<rparr>
               in (Inr (withLatency (Bare updated)), savePricesDb (db[idx := updated]) b')))"

text \<open>
  The \<open>then\<close> of \<open>updateMarketPrice\<close>: \<open>if (r && r.price) return r.price; return r\<close>.
  On an envelope \<open>r.price\<close> is the record; on a bare record it is the number, which is
  returned when it is not zero.
\<close>

datatype price_result =
    PriceRecord ShrimpPrice
  | PriceNumber rat
  | EnvelopeWithoutPrice bool
  | OtherValue bool
  | NullValue

definition updateMarketPrice_then :: "ShrimpPrice wire option \<Rightarrow> price_result" where
  "updateMarketPrice_then r =
     (case r of
        Some (Bare p) \<Rightarrow> if sp_price p \<noteq> 0 then PriceNumber (sp_price p) else PriceRecord p
      | Some (Enveloped s (Some p)) \<Rightarrow> PriceRecord p
      | Some (Enveloped s None) \<Rightarrow> EnvelopeWithoutPrice s
      | Some (Other t) \<Rightarrow> OtherValue t
      | None \<Rightarrow> NullValue)"

definition updateMarketPrice ::
  "import_meta_env \<Rightarrow> ShrimpPrice list \<Rightarrow> string \<Rightarrow> rat \<Rightarrow> ShrimpPrice wire fetch_result
     \<Rightarrow> browser \<Rightarrow> (js_error + price_result) \<times> browser" where
  "updateMarketPrice env MOCK_SHRIMP_PRICES g newPrice res b =
     (case tryFetch env ''/market-prices'' res
             (Some (updateMarketPrice_fallback MOCK_SHRIMP_PRICES g newPrice)) b of
        (Inl e, b') \<Rightarrow> (Inl e, b')
      | (Inr r, b') \<Rightarrow> (Inr (updateMarketPrice_then r), b'))"

subsection \<open>Harvest requests\<close>

definition getDb :: "browser \<Rightarrow> HarvestRequest list" where
  "getDb b = (case harvest_requests_key b of Some db \<Rightarrow> db | None \<Rightarrow> [])"

definition saveDb :: "HarvestRequest list \<Rightarrow> browser \<Rightarrow> browser" where
  "saveDb db b = b\<lparr>harvest_requests_key := Some db\<rparr>"

definition updateHarvestRequestStatus_fallback ::
  "string \<Rightarrow> string \<Rightarrow> HarvestRequest wire fallback" where
  "updateHarvestRequestStatus_fallback requestId newStatus b =
     (let db = getDb b
      in (case findIndex (\<lambda>r. req_id r = requestId) db of
            None \<Rightarrow> (Inl (Error ''Request not found''), b)
          | Some idx \<Rightarrow>
              let updated = (db ! idx)\<lparr>status := newStatus\<rparr>
              in (Inr (withLatency (Bare updated)), saveDb (db[idx := updated]) b)))"

text \<open>
  The \<open>then\<close> of \<open>updateHarvestRequestStatus\<close>: \<open>if (r && r.request) return r.request;
  return r\<close>.
\<close>

datatype request_result =
    RequestRecord HarvestRequest
  | EnvelopeWithoutRequest bool
  | OtherRequestValue bool
  | NullRequest

definition updateHarvestRequestStatus_then :: "HarvestRequest wire option \<Rightarrow> request_result" where
  "updateHarvestRequestStatus_then r =
     (case r of
        Some (Bare q) \<Rightarrow> RequestRecord q
      | Some (Enveloped s (Some q)) \<Rightarrow> RequestRecord q
      | Some (Enveloped s None) \<Rightarrow> EnvelopeWithoutRequest s
      | Some (Other t) \<Rightarrow> OtherRequestValue t
      | None \<Rightarrow> NullRequest)"

text \<open>
  \<open>encodeURIComponent\<close> leaves letters, digits and \<open>- _ . ! ~ * ' ( )\<close> as they are;
  the model takes the encoded id as the parameter \<open>encodedId\<close>.
\<close>

definition updateHarvestRequestStatus ::
  "import_meta_env \<Rightarrow> string \<Rightarrow> string \<Rightarrow> string \<Rightarrow> HarvestRequest wire fetch_result
     \<Rightarrow> browser \<Rightarrow> (js_error + request_result) \<times> browser" where
  "updateHarvestRequestStatus env requestId encodedId newStatus res b =
     (case tryFetch env (''/harvest-requests/'' @ encodedId) res
             (Some (updateHarvestRequestStatus_fallback requestId newStatus)) b of
        (Inl e, b') \<Rightarrow> (Inl e, b')
      | (Inr r, b') \<Rightarrow> (Inr (updateHarvestRequestStatus_then r), b'))"

text \<open>
  The remote call of an operation has failed when \<open>fetch\<close> rejected (a network
  error), when the response has a non-success status, or when its body does not parse.
\<close>

definition remote_failed :: "'w fetch_result \<Rightarrow> bool" where
  "remote_failed res =
     (case res of
        Rejected err \<Rightarrow> True
      | Resolved ok st statusText text data \<Rightarrow> \<not> ok \<or> data = None)"

section \<open>Proofs: the OTP endpoints\<close>

lemma digits10_nonempty: "digits10 n \<noteq> []"
  by (subst digits10.simps) simp

lemma toString_nonempty: "toString i \<noteq> []"
  by (simp add: toString_def digits10_nonempty)

lemma genOtp_nonempty: "genOtp rnd \<noteq> []"
  by (simp add: genOtp_def toString_nonempty)

lemma genOtp_0: "genOtp 0 = ''100000''"
  by (simp add: genOtp_def toString_def digits10.simps)

lemma genOtp_half: "genOtp (1 / 2) = ''550000''"
  by (simp add: genOtp_def toString_def digits10.simps)

lemma send_otp_store:
  "phone \<noteq> [] \<Longrightarrow>
   snd (post_send_otp tw rnd t0 (Some phone) store) =
     store(phone \<mapsto> \<lparr>code = genOtp rnd, expiresAt = t0 + 300000\<rparr>)"
  by (simp add: post_send_otp_def truthy_def Let_def split: option.split twilio_outcome.split)

lemma verify_no_entry:
  "phone \<noteq> [] \<Longrightarrow> submitted \<noteq> [] \<Longrightarrow> store phone = None \<Longrightarrow>
   post_verify_otp now (Some phone) (Some submitted) store = (NotFound, store)"
  by (simp add: post_verify_otp_def truthy_def NotFound_def)

lemma verify_expired:
  "phone \<noteq> [] \<Longrightarrow> submitted \<noteq> [] \<Longrightarrow> store phone = Some e \<Longrightarrow> expiresAt e < now \<Longrightarrow>
   post_verify_otp now (Some phone) (Some submitted) store = (Expired, store(phone := None))"
  by (simp add: post_verify_otp_def truthy_def Expired_def)

lemma verify_mismatch:
  "phone \<noteq> [] \<Longrightarrow> submitted \<noteq> [] \<Longrightarrow> store phone = Some e \<Longrightarrow> now \<le> expiresAt e \<Longrightarrow>
   code e \<noteq> submitted \<Longrightarrow>
   post_verify_otp now (Some phone) (Some submitted) store = (Mismatch, store)"
  by (simp add: post_verify_otp_def truthy_def Mismatch_def)

lemma verify_match:
  "phone \<noteq> [] \<Longrightarrow> code e \<noteq> [] \<Longrightarrow> store phone = Some e \<Longrightarrow> now \<le> expiresAt e \<Longrightarrow>
   post_verify_otp now (Some phone) (Some (code e)) store = (Verified, store(phone := None))"
  by (simp add: post_verify_otp_def truthy_def Verified_def)

text \<open>
  C1. For a request that carries a phone and a code: when the store has no entry for the
  phone (in particular before the first send), verify-otp answers NotFound and leaves the
  store as it is. After send-otp has stored a code, a verify-otp with that code no later
  than the expiry answers Verified and deletes the entry, and a second verify-otp with the
  same code, at any time, answers NotFound.
\<close>

theorem otp_verify_single_use:
  assumes "phone \<noteq> []" and "submitted \<noteq> []"
  shows "(store phone = None \<longrightarrow>
            post_verify_otp now (Some phone) (Some submitted) store = (NotFound, store))
       \<and> (t1 \<le> t0 + 300000 \<longrightarrow>
           (let s1 = snd (post_send_otp tw rnd t0 (Some phone) store);
                v1 = post_verify_otp t1 (Some phone) (Some (genOtp rnd)) s1;
                v2 = post_verify_otp t2 (Some phone) (Some (genOtp rnd)) (snd v1)
            in s1 phone = Some \<lparr>code = genOtp rnd, expiresAt = t0 + 300000\<rparr>
             \<and> fst v1 = Verified \<and> snd v1 phone = None
             \<and> fst v2 = NotFound \<and> snd v2 phone = None))"
proof (intro conjI impI)
  assume "store phone = None"
  with assms show "post_verify_otp now (Some phone) (Some submitted) store = (NotFound, store)"
    by (rule verify_no_entry)
next
  assume live: "t1 \<le> t0 + 300000"
  define e where "e = \<lparr>code = genOtp rnd, expiresAt = t0 + 300000\<rparr>"
  define s1 where "s1 = snd (post_send_otp tw rnd t0 (Some phone) store)"
  have s1: "s1 phone = Some e"
    using assms(1) by (simp add: s1_def e_def send_otp_store)
  have v1: "post_verify_otp t1 (Some phone) (Some (genOtp rnd)) s1 = (Verified, s1(phone := None))"
    using verify_match [of phone e s1 t1] assms(1) s1 live
    by (simp add: e_def genOtp_nonempty)
  have v2: "post_verify_otp t2 (Some phone) (Some (genOtp rnd)) (s1(phone := None))
              = (NotFound, s1(phone := None))"
    using assms(1) by (simp add: verify_no_entry genOtp_nonempty)
  show "let s1 = snd (post_send_otp tw rnd t0 (Some phone) store);
            v1 = post_verify_otp t1 (Some phone) (Some (genOtp rnd)) s1;
            v2 = post_verify_otp t2 (Some phone) (Some (genOtp rnd)) (snd v1)
        in s1 phone = Some \<lparr>code = genOtp rnd, expiresAt = t0 + 300000\<rparr>
         \<and> fst v1 = Verified \<and> snd v1 phone = None
         \<and> fst v2 = NotFound \<and> snd v2 phone = None"
    using s1 v1 v2 by (simp add: Let_def s1_def [symmetric] e_def)
qed

theorem otp_verify_single_use_witness:
  "''+15550100'' \<noteq> [] \<and> ''123456'' \<noteq> [] \<and> (Map.empty :: otpStore) ''+15550100'' = None
   \<and> (2000 :: int) \<le> 1000 + 300000
   \<and> post_verify_otp 5 (Some ''+15550100'') (Some ''123456'') Map.empty = (NotFound, Map.empty)
   \<and> fst (post_verify_otp 2000 (Some ''+15550100'') (Some (genOtp 0))
            (snd (post_send_otp None 0 1000 (Some ''+15550100'') Map.empty))) = Verified
   \<and> fst (post_verify_otp 3000 (Some ''+15550100'') (Some (genOtp 0))
            (snd (post_verify_otp 2000 (Some ''+15550100'') (Some (genOtp 0))
               (snd (post_send_otp None 0 1000 (Some ''+15550100'') Map.empty))))) = NotFound"
  using otp_verify_single_use [of "''+15550100''" "''123456''" Map.empty 5 2000 1000 None 0 3000]
  by (simp add: Let_def)

text \<open>
  C4. For a request that carries a phone and a code: when the store holds an entry for the
  phone and the clock is past its \<open>expiresAt\<close>, verify-otp answers Expired and deletes the
  entry, whatever code was submitted. The entry written by a send-otp at \<open>t0\<close> expires
  at \<open>t0\<close> plus five minutes.
\<close>

theorem otp_verify_after_expiry:
  assumes "phone \<noteq> []" and "submitted \<noteq> []"
  shows "(store phone = Some entry \<and> expiresAt entry < now \<longrightarrow>
            post_verify_otp now (Some phone) (Some submitted) store
              = (Expired, store(phone := None)))
       \<and> (t0 + 5 * 60 * 1000 < now \<longrightarrow>
            post_verify_otp now (Some phone) (Some submitted)
                (snd (post_send_otp tw rnd t0 (Some phone) store))
              = (Expired, (snd (post_send_otp tw rnd t0 (Some phone) store))(phone := None)))"
proof (intro conjI impI)
  assume "store phone = Some entry \<and> expiresAt entry < now"
  with assms show "post_verify_otp now (Some phone) (Some submitted) store
                     = (Expired, store(phone := None))"
    by (simp add: verify_expired)
next
  assume late: "t0 + 5 * 60 * 1000 < now"
  have "snd (post_send_otp tw rnd t0 (Some phone) store) phone
          = Some \<lparr>code = genOtp rnd, expiresAt = t0 + 300000\<rparr>"
    using assms(1) by (simp add: send_otp_store)
  moreover have "expiresAt \<lparr>code = genOtp rnd, expiresAt = t0 + 300000\<rparr> < now"
    using late by simp
  ultimately show "post_verify_otp now (Some phone) (Some submitted)
                     (snd (post_send_otp tw rnd t0 (Some phone) store))
                   = (Expired, (snd (post_send_otp tw rnd t0 (Some phone) store))(phone := None))"
    using assms by (rule verify_expired [rotated 2])
qed

theorem otp_verify_after_expiry_witness:
  "''+15550100'' \<noteq> [] \<and> genOtp 0 \<noteq> [] \<and> (1000 :: int) + 5 * 60 * 1000 < 301001
   \<and> post_verify_otp 301001 (Some ''+15550100'') (Some (genOtp 0))
        (snd (post_send_otp None 0 1000 (Some ''+15550100'') Map.empty))
      = (Expired, (snd (post_send_otp None 0 1000 (Some ''+15550100'') Map.empty))
                    (''+15550100'' := None))
   \<and> [''+15550100'' \<mapsto> \<lparr>code = ''123456'', expiresAt = 10\<rparr>] ''+15550100''
        = Some \<lparr>code = ''123456'', expiresAt = 10\<rparr>
   \<and> post_verify_otp 11 (Some ''+15550100'') (Some (genOtp 0))
        [''+15550100'' \<mapsto> \<lparr>code = ''123456'', expiresAt = 10\<rparr>]
      = (Expired, [''+15550100'' \<mapsto> \<lparr>code = ''123456'', expiresAt = 10\<rparr>]
                    (''+15550100'' := None))"
  using otp_verify_after_expiry [where phone = "''+15550100''" and submitted = "genOtp 0"
          and store = "[''+15550100'' \<mapsto> \<lparr>code = ''123456'', expiresAt = 10\<rparr>]"
          and entry = "\<lparr>code = ''123456'', expiresAt = 10\<rparr>" and now = 11]
        otp_verify_after_expiry [where phone = "''+15550100''" and submitted = "genOtp 0"
          and now = 301001 and ?t0.0 = 1000 and tw = None and rnd = 0 and store = Map.empty]
  by (simp add: genOtp_nonempty)

text \<open>
  C6. With Twilio configured and the delivery attempt rejected, send-otp answers 500 with
  \<open>success: false\<close>; the entry it wrote before the attempt is in the store, and a
  verify-otp with its code no later than the expiry answers Verified.
\<close>

theorem otp_delivery_failure_keeps_entry:
  assumes "phone \<noteq> []"
  shows "fst (post_send_otp (Some (TwilioError err)) rnd t0 (Some phone) store)
           = \<lparr>r_status = 500, r_success = Some False, r_error = Some ''Failed to send SMS'',
               r_message = None, r_payload = None\<rparr>
       \<and> snd (post_send_otp (Some (TwilioError err)) rnd t0 (Some phone) store) phone
           = Some \<lparr>code = genOtp rnd, expiresAt = t0 + 5 * 60 * 1000\<rparr>
       \<and> (t1 \<le> t0 + 5 * 60 * 1000 \<longrightarrow>
            post_verify_otp t1 (Some phone) (Some (genOtp rnd))
                (snd (post_send_otp (Some (TwilioError err)) rnd t0 (Some phone) store))
              = (Verified,
                 (snd (post_send_otp (Some (TwilioError err)) rnd t0 (Some phone) store))
                   (phone := None)))"
proof (intro conjI impI)
  show "fst (post_send_otp (Some (TwilioError err)) rnd t0 (Some phone) store)
          = \<lparr>r_status = 500, r_success = Some False, r_error = Some ''Failed to send SMS'',
              r_message = None, r_payload = None\<rparr>"
    using assms by (simp add: post_send_otp_def truthy_def Let_def)
next
  show "snd (post_send_otp (Some (TwilioError err)) rnd t0 (Some phone) store) phone
          = Some \<lparr>code = genOtp rnd, expiresAt = t0 + 5 * 60 * 1000\<rparr>"
    using assms by (simp add: send_otp_store)
next
  assume live: "t1 \<le> t0 + 5 * 60 * 1000"
  define e where "e = \<lparr>code = genOtp rnd, expiresAt = t0 + 300000\<rparr>"
  define s1 where "s1 = snd (post_send_otp (Some (TwilioError err)) rnd t0 (Some phone) store)"
  have "s1 phone = Some e"
    using assms by (simp add: s1_def e_def send_otp_store)
  then have "post_verify_otp t1 (Some phone) (Some (code e)) s1 = (Verified, s1(phone := None))"
    using assms live by (intro verify_match) (simp_all add: e_def genOtp_nonempty)
  then show "post_verify_otp t1 (Some phone) (Some (genOtp rnd))
               (snd (post_send_otp (Some (TwilioError err)) rnd t0 (Some phone) store))
             = (Verified,
                (snd (post_send_otp (Some (TwilioError err)) rnd t0 (Some phone) store))
                  (phone := None))"
    by (simp add: s1_def e_def)
qed

theorem otp_delivery_failure_keeps_entry_witness:
  "''+15550100'' \<noteq> [] \<and> (300000 :: int) \<le> 0 + 5 * 60 * 1000
   \<and> r_status (fst (post_send_otp (Some (TwilioError ''unreachable'')) 0 0
                      (Some ''+15550100'') Map.empty)) = 500
   \<and> r_success (fst (post_send_otp (Some (TwilioError ''unreachable'')) 0 0
                      (Some ''+15550100'') Map.empty)) = Some False
   \<and> fst (post_verify_otp 300000 (Some ''+15550100'') (Some (genOtp 0))
        (snd (post_send_otp (Some (TwilioError ''unreachable'')) 0 0
                (Some ''+15550100'') Map.empty))) = Verified"
  using otp_delivery_failure_keeps_entry [where phone = "''+15550100''"
          and err = "''unreachable''" and rnd = 0 and ?t0.0 = 0 and store = Map.empty
          and ?t1.0 = 300000]
  by simp

text \<open>
  C5, as the claim states it, fails: the second send-otp can draw the code the first one
  drew, and then the previous code is the stored code and is accepted; and a verify-otp
  past the expiry of the new entry answers Expired.
\<close>

theorem otp_resend_previous_code_counterexample:
  "fst (post_verify_otp 3000 (Some ''+15550100'') (Some (genOtp 0))
         (snd (post_send_otp None 0 2000 (Some ''+15550100'')
            (snd (post_send_otp None 0 1000 (Some ''+15550100'') Map.empty)))))
     = Verified
   \<and> fst (post_verify_otp 3000 (Some ''+15550100'') (Some (genOtp 0))
         (snd (post_send_otp None 0 2000 (Some ''+15550100'')
            (snd (post_send_otp None 0 1000 (Some ''+15550100'') Map.empty)))))
     \<noteq> Mismatch
   \<and> fst (post_verify_otp 400000 (Some ''+15550100'') (Some (genOtp 0))
         (snd (post_send_otp None (1 / 2) 2000 (Some ''+15550100'')
            (snd (post_send_otp None 0 1000 (Some ''+15550100'') Map.empty)))))
     = Expired
   \<and> fst (post_verify_otp 400000 (Some ''+15550100'') (Some (genOtp 0))
         (snd (post_send_otp None (1 / 2) 2000 (Some ''+15550100'')
            (snd (post_send_otp None 0 1000 (Some ''+15550100'') Map.empty)))))
     \<noteq> Mismatch"
  by (simp add: send_otp_store post_verify_otp_def truthy_def genOtp_nonempty
        Verified_def Mismatch_def Expired_def)

text \<open>
  C5, amended. For a request that carries a phone: after a second send-otp has replaced
  the entry of the phone with a code that differs from the previous one, a verify-otp that
  submits the previous code no later than the expiry of the new entry answers Mismatch,
  and the new entry stays in the store.
\<close>

theorem otp_resend_invalidates_previous_code:
  assumes "phone \<noteq> []"
    and "genOtp rnd2 \<noteq> genOtp rnd1"
    and "now \<le> t2 + 5 * 60 * 1000"
  shows "post_verify_otp now (Some phone) (Some (genOtp rnd1))
           (snd (post_send_otp tw2 rnd2 t2 (Some phone)
              (snd (post_send_otp tw1 rnd1 t1 (Some phone) store))))
         = (Mismatch,
            snd (post_send_otp tw2 rnd2 t2 (Some phone)
              (snd (post_send_otp tw1 rnd1 t1 (Some phone) store))))
       \<and> snd (post_send_otp tw2 rnd2 t2 (Some phone)
              (snd (post_send_otp tw1 rnd1 t1 (Some phone) store))) phone
         = Some \<lparr>code = genOtp rnd2, expiresAt = t2 + 5 * 60 * 1000\<rparr>"
proof -
  define s2 where "s2 = snd (post_send_otp tw2 rnd2 t2 (Some phone)
                          (snd (post_send_otp tw1 rnd1 t1 (Some phone) store)))"
  define e where "e = \<lparr>code = genOtp rnd2, expiresAt = t2 + 300000\<rparr>"
  have s2: "s2 phone = Some e"
    using assms(1) by (simp add: s2_def e_def send_otp_store)
  have "post_verify_otp now (Some phone) (Some (genOtp rnd1)) s2 = (Mismatch, s2)"
    using assms s2 by (intro verify_mismatch [where e = e]) (simp_all add: e_def genOtp_nonempty)
  with s2 show ?thesis
    by (simp add: s2_def e_def)
qed

theorem otp_resend_invalidates_previous_code_witness:
  "''+15550100'' \<noteq> [] \<and> genOtp (1 / 2) \<noteq> genOtp 0 \<and> (3000 :: int) \<le> 2000 + 5 * 60 * 1000
   \<and> fst (post_verify_otp 3000 (Some ''+15550100'') (Some (genOtp 0))
         (snd (post_send_otp None (1 / 2) 2000 (Some ''+15550100'')
            (snd (post_send_otp None 0 1000 (Some ''+15550100'') Map.empty)))))
      = Mismatch"
  using otp_resend_invalidates_previous_code [where phone = "''+15550100''"
          and ?rnd2.0 = "1 / 2" and ?rnd1.0 = 0 and now = 3000 and ?t2.0 = 2000
          and ?t1.0 = 1000 and ?tw1.0 = None and ?tw2.0 = None and store = Map.empty]
  by (simp add: genOtp_0 genOtp_half)

section \<open>Proofs: market prices\<close>

lemma findOne_updateOne_upsert:
  assumes "flt inserted" and "\<And>d. flt d \<Longrightarrow> flt (set_fields d)"
  shows "findOne flt (updateOne_upsert flt set_fields inserted coll)
           = Some (case findOne flt coll of Some d \<Rightarrow> set_fields d | None \<Rightarrow> inserted)"
  using assms by (induction coll) (auto simp: findOne_def)

lemma updateOne_upsert_absent:
  "findOne flt coll = None \<Longrightarrow> updateOne_upsert flt set_fields inserted coll = coll @ [inserted]"
  by (induction coll) (auto simp: findOne_def split: if_splits)

lemma findIndex_Some:
  "findIndex P xs = Some i \<Longrightarrow> i < length xs \<and> P (xs ! i) \<and> (\<forall>j < i. \<not> P (xs ! j))"
proof (induction xs arbitrary: i)
  case Nil
  then show ?case by simp
next
  case (Cons x xs)
  show ?case
  proof (cases "P x")
    case True
    with Cons.prems show ?thesis by simp
  next
    case False
    with Cons.prems obtain k where k: "findIndex P xs = Some k" "i = Suc k"
      by auto
    from Cons.IH [OF k(1)] False k(2) show ?thesis
      by (auto simp: less_Suc_eq_0_disj)
  qed
qed

lemma find_list_update_first:
  assumes "findIndex P xs = Some i" and "P y"
  shows "List.find P (xs[i := y]) = Some y"
  using assms
proof (induction xs arbitrary: i)
  case Nil
  then show ?case by simp
next
  case (Cons x xs)
  then show ?case by (cases "P x") auto
qed

lemma getPricesDb_cases:
  "getPricesDb MOCK b =
     (case market_prices_key b of
        Some db \<Rightarrow> (db, b)
      | None \<Rightarrow> (MOCK, b\<lparr>market_prices_key := Some MOCK\<rparr>))"
  by (simp add: getPricesDb_def Let_def split: option.split)

text \<open>
  C8. Server: for a grade that the price collection holds, \<open>PATCH /market-prices\<close> with a
  numeric price \<open>p\<close> answers with, and stores as the document of that grade, the record
  whose price is \<open>p\<close> and whose previousPrice is the price the document held before.
  Client fallback: for a grade that the local price list holds, the fallback of
  \<open>updateMarketPrice\<close> stores at the index of that grade the record with price \<open>p\<close> and
  previousPrice the price held before.
\<close>

theorem price_update_shifts_previous:
  "(g \<noteq> [] \<and> findOne (\<lambda>d. sp_grade d = g) pricesColl = Some e \<longrightarrow>
      r_status (fst (patch_market_prices DbOk now (Some g) (Some p) pricesColl)) = 200
    \<and> r_success (fst (patch_market_prices DbOk now (Some g) (Some p) pricesColl)) = Some True
    \<and> r_payload (fst (patch_market_prices DbOk now (Some g) (Some p) pricesColl))
        = Some \<lparr>sp_grade = g, sp_price = p, sp_previousPrice = Some (sp_price e),
                 sp_updatedAt = Some now\<rparr>
    \<and> findOne (\<lambda>d. sp_grade d = g)
          (snd (patch_market_prices DbOk now (Some g) (Some p) pricesColl))
        = Some \<lparr>sp_grade = g, sp_price = p, sp_previousPrice = Some (sp_price e),
                 sp_updatedAt = Some now\<rparr>)
 \<and> (fst (getPricesDb MOCK b) = db \<and> findIndex (\<lambda>q. sp_grade q = g) db = Some i \<longrightarrow>
      market_prices_key (snd (updateMarketPrice_fallback MOCK g p b))
        = Some (db[i := (db ! i)\<lparr>sp_price := p, sp_previousPrice := Some (sp_price (db ! i))\<rparr>])
    \<and> List.find (\<lambda>q. sp_grade q = g)
          (db[i := (db ! i)\<lparr>sp_price := p, sp_previousPrice := Some (sp_price (db ! i))\<rparr>])
        = Some ((db ! i)\<lparr>sp_price := p, sp_previousPrice := Some (sp_price (db ! i))\<rparr>))"
proof (intro conjI impI)
  assume a: "g \<noteq> [] \<and> findOne (\<lambda>d. sp_grade d = g) pricesColl = Some e"
  define u where "u = \<lparr>sp_grade = g, sp_price = p, sp_previousPrice = Some (sp_price e),
                        sp_updatedAt = Some now\<rparr>"
  define setf :: "ShrimpPrice \<Rightarrow> ShrimpPrice" where "setf = (\<lambda>d. d\<lparr>sp_grade := sp_grade u, sp_price := sp_price u,
                        sp_previousPrice := sp_previousPrice u, sp_updatedAt := sp_updatedAt u\<rparr>)"
  have out: "patch_market_prices DbOk now (Some g) (Some p) pricesColl =
               (\<lparr>r_status = 200, r_success = Some True, r_error = None, r_message = None,
                  r_payload = Some u\<rparr>,
                updateOne_upsert (\<lambda>d. sp_grade d = g) setf u pricesColl)"
    using a by (simp add: patch_market_prices_def truthy_def Let_def u_def setf_def)
  have setf_u: "setf d = u" for d
    by (cases d) (simp add: setf_def u_def)
  have stored: "findOne (\<lambda>d. sp_grade d = g) (updateOne_upsert (\<lambda>d. sp_grade d = g) setf u pricesColl)
                  = Some u"
    using a findOne_updateOne_upsert [of "\<lambda>d. sp_grade d = g" u setf pricesColl]
    by (simp add: setf_u) (simp add: u_def)
  show "r_status (fst (patch_market_prices DbOk now (Some g) (Some p) pricesColl)) = 200"
    by (simp add: out)
  show "r_success (fst (patch_market_prices DbOk now (Some g) (Some p) pricesColl)) = Some True"
    by (simp add: out)
  show "r_payload (fst (patch_market_prices DbOk now (Some g) (Some p) pricesColl))
          = Some \<lparr>sp_grade = g, sp_price = p, sp_previousPrice = Some (sp_price e),
                   sp_updatedAt = Some now\<rparr>"
    by (simp add: out u_def)
  show "findOne (\<lambda>d. sp_grade d = g)
          (snd (patch_market_prices DbOk now (Some g) (Some p) pricesColl))
        = Some \<lparr>sp_grade = g, sp_price = p, sp_previousPrice = Some (sp_price e),
                 sp_updatedAt = Some now\<rparr>"
    using stored by (simp add: out u_def)
next
  assume a: "fst (getPricesDb MOCK b) = db \<and> findIndex (\<lambda>q. sp_grade q = g) db = Some i"
  obtain b' where gp: "getPricesDb MOCK b = (db, b')"
    using a by (cases "getPricesDb MOCK b") simp
  show "market_prices_key (snd (updateMarketPrice_fallback MOCK g p b))
        = Some (db[i := (db ! i)\<lparr>sp_price := p, sp_previousPrice := Some (sp_price (db ! i))\<rparr>])"
    using a by (simp add: updateMarketPrice_fallback_def gp Let_def savePricesDb_def)
next
  assume a: "fst (getPricesDb MOCK b) = db \<and> findIndex (\<lambda>q. sp_grade q = g) db = Some i"
  then have "sp_grade (db ! i) = g"
    using findIndex_Some [of "\<lambda>q. sp_grade q = g" db i] by simp
  with a show "List.find (\<lambda>q. sp_grade q = g)
          (db[i := (db ! i)\<lparr>sp_price := p, sp_previousPrice := Some (sp_price (db ! i))\<rparr>])
        = Some ((db ! i)\<lparr>sp_price := p, sp_previousPrice := Some (sp_price (db ! i))\<rparr>)"
    by (intro find_list_update_first) simp_all
qed

theorem price_update_shifts_previous_witness:
  "''Premium'' \<noteq> []
 \<and> findOne (\<lambda>d. sp_grade d = ''Premium'')
      [\<lparr>sp_grade = ''Premium'', sp_price = 500, sp_previousPrice = None, sp_updatedAt = None\<rparr>]
    = Some \<lparr>sp_grade = ''Premium'', sp_price = 500, sp_previousPrice = None, sp_updatedAt = None\<rparr>
 \<and> findOne (\<lambda>d. sp_grade d = ''Premium'')
      (snd (patch_market_prices DbOk 1000 (Some ''Premium'') (Some 550)
        [\<lparr>sp_grade = ''Premium'', sp_price = 500, sp_previousPrice = None,
          sp_updatedAt = None\<rparr>]))
    = Some \<lparr>sp_grade = ''Premium'', sp_price = 550, sp_previousPrice = Some 500,
             sp_updatedAt = Some 1000\<rparr>
 \<and> findOne (\<lambda>d. sp_grade d = ''Premium'')
      (snd (patch_market_prices DbOk 2000 (Some ''Premium'') (Some 600)
        (snd (patch_market_prices DbOk 1000 (Some ''Premium'') (Some 550)
          [\<lparr>sp_grade = ''Premium'', sp_price = 500, sp_previousPrice = None,
            sp_updatedAt = None\<rparr>]))))
    = Some \<lparr>sp_grade = ''Premium'', sp_price = 600, sp_previousPrice = Some 550,
             sp_updatedAt = Some 2000\<rparr>
 \<and> findIndex (\<lambda>q. sp_grade q = ''Premium'')
      [\<lparr>sp_grade = ''Premium'', sp_price = 500, sp_previousPrice = None, sp_updatedAt = None\<rparr>]
    = Some 0
 \<and> market_prices_key (snd (updateMarketPrice_fallback [] ''Premium'' 550
      \<lparr>harvest_requests_key = None,
        market_prices_key = Some [\<lparr>sp_grade = ''Premium'', sp_price = 500,
                                  sp_previousPrice = None, sp_updatedAt = None\<rparr>],
        market_status_key = None, fetched = []\<rparr>))
    = Some [\<lparr>sp_grade = ''Premium'', sp_price = 550, sp_previousPrice = Some 500,
              sp_updatedAt = None\<rparr>]
 \<and> market_prices_key (snd (updateMarketPrice_fallback [] ''Premium'' 600
      (snd (updateMarketPrice_fallback [] ''Premium'' 550
        \<lparr>harvest_requests_key = None,
          market_prices_key = Some [\<lparr>sp_grade = ''Premium'', sp_price = 500,
                                    sp_previousPrice = None, sp_updatedAt = None\<rparr>],
          market_status_key = None, fetched = []\<rparr>))))
    = Some [\<lparr>sp_grade = ''Premium'', sp_price = 600, sp_previousPrice = Some 550,
              sp_updatedAt = None\<rparr>]"
proof -
  let ?p500 = "\<lparr>sp_grade = ''Premium'', sp_price = 500, sp_previousPrice = None,
                 sp_updatedAt = None\<rparr>"
  let ?s550 = "\<lparr>sp_grade = ''Premium'', sp_price = 550, sp_previousPrice = Some 500,
                 sp_updatedAt = Some 1000\<rparr>"
  let ?c550 = "\<lparr>sp_grade = ''Premium'', sp_price = 550, sp_previousPrice = Some 500,
                 sp_updatedAt = None\<rparr>"
  let ?b0 = "\<lparr>harvest_requests_key = None, market_prices_key = Some [?p500],
               market_status_key = None, fetched = []\<rparr>"
  have h0: "findOne (\<lambda>d. sp_grade d = ''Premium'') [?p500] = Some ?p500"
    by (simp add: findOne_def)
  have i0: "findIndex (\<lambda>q. sp_grade q = ''Premium'') [?p500] = Some 0"
    by simp
  have g0: "fst (getPricesDb [] ?b0) = [?p500]"
    by (simp add: getPricesDb_cases)
  note s1 = price_update_shifts_previous [where g = "''Premium''" and pricesColl = "[?p500]"
      and e = ?p500 and now = 1000 and p = 550 and MOCK = "[]" and b = ?b0
      and db = "[?p500]" and i = 0]
  have srv1: "findOne (\<lambda>d. sp_grade d = ''Premium'')
                (snd (patch_market_prices DbOk 1000 (Some ''Premium'') (Some 550) [?p500]))
              = Some ?s550"
    using s1 h0 by simp
  have cli1: "market_prices_key (snd (updateMarketPrice_fallback [] ''Premium'' 550 ?b0))
              = Some [?c550]"
    using s1 i0 g0 by simp
  have g1: "fst (getPricesDb [] (snd (updateMarketPrice_fallback [] ''Premium'' 550 ?b0)))
              = [?c550]"
    by (simp add: getPricesDb_cases cli1)
  have i1: "findIndex (\<lambda>q. sp_grade q = ''Premium'') [?c550] = Some 0"
    by simp
  note s2 = price_update_shifts_previous [where g = "''Premium''"
      and pricesColl = "snd (patch_market_prices DbOk 1000 (Some ''Premium'') (Some 550) [?p500])"
      and e = ?s550 and now = 2000 and p = 600 and MOCK = "[]"
      and b = "snd (updateMarketPrice_fallback [] ''Premium'' 550 ?b0)"
      and db = "[?c550]" and i = 0]
  have srv2: "findOne (\<lambda>d. sp_grade d = ''Premium'')
                (snd (patch_market_prices DbOk 2000 (Some ''Premium'') (Some 600)
                  (snd (patch_market_prices DbOk 1000 (Some ''Premium'') (Some 550) [?p500]))))
              = Some \<lparr>sp_grade = ''Premium'', sp_price = 600, sp_previousPrice = Some 550,
                       sp_updatedAt = Some 2000\<rparr>"
    using s2 srv1 by simp
  have cli2: "market_prices_key (snd (updateMarketPrice_fallback [] ''Premium'' 600
                (snd (updateMarketPrice_fallback [] ''Premium'' 550 ?b0))))
              = Some [\<lparr>sp_grade = ''Premium'', sp_price = 600, sp_previousPrice = Some 550,
                        sp_updatedAt = None\<rparr>]"
    using s2 g1 i1 by simp
  show ?thesis
    using h0 i0 srv1 srv2 cli1 cli2 by simp
qed

text \<open>
  C9. For a grade that the price collection does not hold, \<open>PATCH /market-prices\<close> answers
  200 with \<open>success: true\<close> and inserts the record with previousPrice \<open>null\<close>; for a
  grade that the local price list does not hold, the fallback of \<open>updateMarketPrice\<close>
  throws \<open>Price for grade not found\<close> and stores no price for it.
\<close>

theorem unknown_grade_server_upserts_client_throws:
  "(g \<noteq> [] \<and> findOne (\<lambda>d. sp_grade d = g) pricesColl = None \<longrightarrow>
      patch_market_prices DbOk now (Some g) (Some p) pricesColl
        = (\<lparr>r_status = 200, r_success = Some True, r_error = None, r_message = None,
             r_payload = Some \<lparr>sp_grade = g, sp_price = p, sp_previousPrice = None,
                               sp_updatedAt = Some now\<rparr>\<rparr>,
           pricesColl @ [\<lparr>sp_grade = g, sp_price = p, sp_previousPrice = None,
                           sp_updatedAt = Some now\<rparr>]))
 \<and> (findIndex (\<lambda>q. sp_grade q = g) (fst (getPricesDb MOCK b)) = None \<longrightarrow>
      updateMarketPrice_fallback MOCK g p b
        = (Inl (Error ''Price for grade not found''), snd (getPricesDb MOCK b)))"
proof (intro conjI impI)
  assume a: "g \<noteq> [] \<and> findOne (\<lambda>d. sp_grade d = g) pricesColl = None"
  then show "patch_market_prices DbOk now (Some g) (Some p) pricesColl
        = (\<lparr>r_status = 200, r_success = Some True, r_error = None, r_message = None,
             r_payload = Some \<lparr>sp_grade = g, sp_price = p, sp_previousPrice = None,
                               sp_updatedAt = Some now\<rparr>\<rparr>,
           pricesColl @ [\<lparr>sp_grade = g, sp_price = p, sp_previousPrice = None,
                           sp_updatedAt = Some now\<rparr>])"
    by (simp add: patch_market_prices_def truthy_def Let_def updateOne_upsert_absent)
next
  assume "findIndex (\<lambda>q. sp_grade q = g) (fst (getPricesDb MOCK b)) = None"
  then show "updateMarketPrice_fallback MOCK g p b
        = (Inl (Error ''Price for grade not found''), snd (getPricesDb MOCK b))"
    by (cases "getPricesDb MOCK b") (simp add: updateMarketPrice_fallback_def)
qed

theorem unknown_grade_server_upserts_client_throws_witness:
  "''Jumbo'' \<noteq> []
 \<and> findOne (\<lambda>d. sp_grade d = ''Jumbo'')
      [\<lparr>sp_grade = ''Premium'', sp_price = 500, sp_previousPrice = None, sp_updatedAt = None\<rparr>]
    = None
 \<and> snd (patch_market_prices DbOk 1000 (Some ''Jumbo'') (Some 300)
      [\<lparr>sp_grade = ''Premium'', sp_price = 500, sp_previousPrice = None, sp_updatedAt = None\<rparr>])
    = [\<lparr>sp_grade = ''Premium'', sp_price = 500, sp_previousPrice = None, sp_updatedAt = None\<rparr>,
       \<lparr>sp_grade = ''Jumbo'', sp_price = 300, sp_previousPrice = None,
         sp_updatedAt = Some 1000\<rparr>]
 \<and> r_success (fst (patch_market_prices DbOk 1000 (Some ''Jumbo'') (Some 300)
      [\<lparr>sp_grade = ''Premium'', sp_price = 500, sp_previousPrice = None,
        sp_updatedAt = None\<rparr>])) = Some True
 \<and> findIndex (\<lambda>q. sp_grade q = ''Jumbo'')
      (fst (getPricesDb
         [\<lparr>sp_grade = ''Premium'', sp_price = 500, sp_previousPrice = None, sp_updatedAt = None\<rparr>]
         \<lparr>harvest_requests_key = None, market_prices_key = None, market_status_key = None,
           fetched = []\<rparr>)) = None
 \<and> fst (updateMarketPrice_fallback
      [\<lparr>sp_grade = ''Premium'', sp_price = 500, sp_previousPrice = None, sp_updatedAt = None\<rparr>]
      ''Jumbo'' 300
      \<lparr>harvest_requests_key = None, market_prices_key = None, market_status_key = None,
        fetched = []\<rparr>)
    = Inl (Error ''Price for grade not found'')"
proof -
  let ?p500 = "\<lparr>sp_grade = ''Premium'', sp_price = 500, sp_previousPrice = None,
                 sp_updatedAt = None\<rparr>"
  let ?b0 = "\<lparr>harvest_requests_key = None, market_prices_key = None, market_status_key = None,
               fetched = []\<rparr>"
  have h: "findOne (\<lambda>d. sp_grade d = ''Jumbo'') [?p500] = None"
    by (simp add: findOne_def)
  have i: "findIndex (\<lambda>q. sp_grade q = ''Jumbo'') (fst (getPricesDb [?p500] ?b0)) = None"
    by (simp add: getPricesDb_cases)
  show ?thesis
    using unknown_grade_server_upserts_client_throws [where g = "''Jumbo''"
        and pricesColl = "[?p500]" and now = 1000 and p = 300 and MOCK = "[?p500]" and b = ?b0]
      h i
    by simp
qed

section \<open>Proofs: harvest requests\<close>

lemma set_find_sorted:
  "set (find_sorted flt coll)
     = {d \<in> set coll. case flt of None \<Rightarrow> True | Some f \<Rightarrow> farmerId d = Some f}"
  by (simp add: find_sorted_def)

lemma find_sorted_descending:
  "sorted_wrt (\<lambda>a b. timestamp b \<le> timestamp a) (find_sorted flt coll)"
proof -
  have "sorted (map (\<lambda>d. - timestamp d) (find_sorted flt coll))"
    by (simp add: find_sorted_def)
  then show ?thesis
    by (simp add: sorted_map)
qed

lemma get_harvest_requests_payload:
  "r_payload (get_harvest_requests DbOk query coll)
     = Some (find_sorted (if truthy query then query else None) coll)"
  by (simp add: get_harvest_requests_def Let_def)

text \<open>
  C7. A submission whose farmerId, grade and quantity are present is answered 201 and
  appended to the collection as a record with status \<open>Pending Approval\<close> and with the
  clock reading of the request as timestamp, which is at most any later time. The listing
  for the farmerId of the submission contains that record; the listing for any other
  farmerId does not; and every listing is in descending order of timestamp.
\<close>

theorem harvest_submit_then_list:
  assumes "farmerId data = Some f" and "f \<noteq> []"
    and "truthy (grade data)" and "truthy_num (quantity data)"
  shows "let out = post_harvest_requests DbOk now_id suffix now_ts data coll;
             newReq = \<lparr>farmerId = Some f, grade = grade data,
                   quantity = quantity data, location = location data,
                   req_id = ''req_'' @ toString now_id @ ''_'' @ suffix,
                   status = ''Pending Approval'', timestamp = now_ts\<rparr>
         in fst out = \<lparr>r_status = 201, r_success = Some True, r_error = None,
                        r_message = None, r_payload = Some newReq\<rparr>
          \<and> snd out = coll @ [newReq]
          \<and> (now_ts \<le> now \<longrightarrow> timestamp newReq \<le> now)
          \<and> (\<exists>l. r_payload (get_harvest_requests DbOk (Some f) (snd out)) = Some l
                 \<and> newReq \<in> set l)
          \<and> (other \<noteq> [] \<and> other \<noteq> f \<longrightarrow>
               (\<exists>l. r_payload (get_harvest_requests DbOk (Some other) (snd out)) = Some l
                  \<and> newReq \<notin> set l))
          \<and> (\<exists>l. r_payload (get_harvest_requests DbOk query anyColl) = Some l
                 \<and> sorted_wrt (\<lambda>a b. timestamp b \<le> timestamp a) l)"
proof -
  define newReq where "newReq = \<lparr>farmerId = Some f, grade = grade data,
                   quantity = quantity data, location = location data,
                   req_id = ''req_'' @ toString now_id @ ''_'' @ suffix,
                   status = ''Pending Approval'', timestamp = now_ts\<rparr>"
  have out: "post_harvest_requests DbOk now_id suffix now_ts data coll
           = (\<lparr>r_status = 201, r_success = Some True, r_error = None, r_message = None,
                r_payload = Some newReq\<rparr>, coll @ [newReq])"
    using assms by (simp add: post_harvest_requests_def truthy_def Let_def newReq_def)
  have own: "newReq \<in> set (find_sorted (Some f) (coll @ [newReq]))"
    by (simp add: set_find_sorted) (simp add: newReq_def)
  have others: "newReq \<notin> set (find_sorted (Some other) (coll @ [newReq]))" if "other \<noteq> f"
    using that by (simp add: set_find_sorted) (simp add: newReq_def)
  have ts: "timestamp newReq = now_ts"
    by (simp add: newReq_def)
  have "fst (post_harvest_requests DbOk now_id suffix now_ts data coll)
          = \<lparr>r_status = 201, r_success = Some True, r_error = None,
              r_message = None, r_payload = Some newReq\<rparr>"
    and "snd (post_harvest_requests DbOk now_id suffix now_ts data coll) = coll @ [newReq]"
    and "now_ts \<le> now \<longrightarrow> timestamp newReq \<le> now"
    and "\<exists>l. r_payload (get_harvest_requests DbOk (Some f) (coll @ [newReq])) = Some l
             \<and> newReq \<in> set l"
    and "other \<noteq> [] \<and> other \<noteq> f \<longrightarrow>
           (\<exists>l. r_payload (get_harvest_requests DbOk (Some other) (coll @ [newReq])) = Some l
              \<and> newReq \<notin> set l)"
    and "\<exists>l. r_payload (get_harvest_requests DbOk query anyColl) = Some l
             \<and> sorted_wrt (\<lambda>a b. timestamp b \<le> timestamp a) l"
    using assms(2) own others
    by (simp_all add: out ts truthy_def get_harvest_requests_payload find_sorted_descending)
  then show ?thesis
    by (simp add: Let_def out newReq_def)
qed

theorem harvest_submit_then_list_witness:
  "farmerId \<lparr>farmerId = Some ''f1'', grade = Some ''A'', quantity = Some 10,
              location = None\<rparr> = Some ''f1''
 \<and> ''f1'' \<noteq> [] \<and> truthy (Some ''A'') \<and> truthy_num (Some 10)
 \<and> ''f2'' \<noteq> [] \<and> ''f2'' \<noteq> ''f1'' \<and> (1000 :: int) \<le> 1001
 \<and> snd (post_harvest_requests DbOk 1000 ''k3j9x2m1q'' 1000
      \<lparr>farmerId = Some ''f1'', grade = Some ''A'', quantity = Some 10, location = None\<rparr> [])
    = [\<lparr>farmerId = Some ''f1'', grade = Some ''A'', quantity = Some 10, location = None,
         req_id = ''req_1000_k3j9x2m1q'', status = ''Pending Approval'', timestamp = 1000\<rparr>]
 \<and> r_payload (get_harvest_requests DbOk (Some ''f1'')
      (snd (post_harvest_requests DbOk 1000 ''k3j9x2m1q'' 1000
         \<lparr>farmerId = Some ''f1'', grade = Some ''A'', quantity = Some 10,
           location = None\<rparr> [])))
    = Some [\<lparr>farmerId = Some ''f1'', grade = Some ''A'', quantity = Some 10, location = None,
         req_id = ''req_1000_k3j9x2m1q'', status = ''Pending Approval'', timestamp = 1000\<rparr>]
 \<and> r_payload (get_harvest_requests DbOk (Some ''f2'')
      (snd (post_harvest_requests DbOk 1000 ''k3j9x2m1q'' 1000
         \<lparr>farmerId = Some ''f1'', grade = Some ''A'', quantity = Some 10,
           location = None\<rparr> [])))
    = Some []"
proof -
  have ts: "toString 1000 = ''1000''"
    by (simp add: toString_def digits10.simps)
  show ?thesis
    using harvest_submit_then_list [where data = "\<lparr>farmerId = Some ''f1'', grade = Some ''A'',
            quantity = Some 10, location = None\<rparr>"
          and f = "''f1''" and now_id = 1000 and suffix = "''k3j9x2m1q''" and now_ts = 1000
          and coll = "[]" and now = 1001 and other = "''f2''" and query = None
          and anyColl = "[]"]
    by (simp add: Let_def truthy_def truthy_num_def ts get_harvest_requests_payload
          find_sorted_def)
qed

section \<open>Proofs: the client facade\<close>

lemma API_BASE_nonempty: "API_BASE env \<noteq> []"
  by (simp add: API_BASE_def truthy_def split: option.split)

lemma API_BASE_unset:
  "API_BASE \<lparr>VITE_API_BASE_URL = None, VITE_API_BASE = None\<rparr> = ''http://localhost:4000''"
  by (simp add: API_BASE_def truthy_def)

lemma build_url_localhost:
  "build_url ''http://localhost:4000'' ''/market-prices'' = ''http://localhost:4000/market-prices''"
  by (simp add: build_url_def startsWith_def strip_trailing_slash_def)

text \<open>
  \<open>tryFetch\<close> on a failed remote call. A fallback that returns decides the result. A
  fallback that throws is called once when \<open>fetch\<close> rejected, and the network error is
  thrown again; it is called twice when \<open>fetch\<close> resolved with a non-success status or
  with a body that does not parse, and the error thrown again is the one of its first call.
\<close>

lemma tryFetch_failed_fallback_returns:
  assumes "remote_failed res"
    and "f (b\<lparr>fetched := fetched b @ [build_url (API_BASE env) path]\<rparr>) = (Inr v, b')"
  shows "tryFetch env path res (Some f) b = (Inr (Some v), b')"
  using assms
  by (cases res)
     (auto simp: tryFetch_def API_BASE_nonempty Let_def remote_failed_def tryFetch_catch_def
        tryFetch_fallback_in_try_def)

lemma tryFetch_rejected_fallback_throws:
  assumes "f (b\<lparr>fetched := fetched b @ [build_url (API_BASE env) path]\<rparr>) = (Inl e, b')"
  shows "tryFetch env path (Rejected err) (Some f) b = (Inl err, b')"
  using assms
  by (simp add: tryFetch_def API_BASE_nonempty Let_def tryFetch_catch_def)

lemma tryFetch_not_ok_fallback_throws:
  assumes "f (b\<lparr>fetched := fetched b @ [build_url (API_BASE env) path]\<rparr>) = (Inl e, b')"
    and "f b' = (Inl e', b'')"
  shows "tryFetch env path (Resolved False st statusText text data) (Some f) b = (Inl e, b'')"
  using assms
  by (simp add: tryFetch_def API_BASE_nonempty Let_def tryFetch_catch_def
        tryFetch_fallback_in_try_def)

lemma tryFetch_unparsed_fallback_throws:
  assumes "f (b\<lparr>fetched := fetched b @ [build_url (API_BASE env) path]\<rparr>) = (Inl e, b')"
    and "f b' = (Inl e', b'')"
  shows "tryFetch env path (Resolved True st statusText text None) (Some f) b = (Inl e, b'')"
  using assms
  by (simp add: tryFetch_def API_BASE_nonempty Let_def tryFetch_catch_def
        tryFetch_fallback_in_try_def)

lemma market_status_set_then_get:
  "r_payload (get_market_status DbOk (snd (post_market_status DbOk (Some v) app_meta))) = Some v"
proof -
  have "findOne (\<lambda>d. meta_key d = ''market_status'')
          (updateOne_upsert (\<lambda>d. meta_key d = ''market_status'') (\<lambda>d. d\<lparr>meta_value := v\<rparr>)
             \<lparr>meta_key = ''market_status'', meta_value = v\<rparr> app_meta)
        = Some (case findOne (\<lambda>d. meta_key d = ''market_status'') app_meta of
                  Some d \<Rightarrow> d\<lparr>meta_value := v\<rparr>
                | None \<Rightarrow> \<lparr>meta_key = ''market_status'', meta_value = v\<rparr>)"
    by (rule findOne_updateOne_upsert) simp_all
  then show ?thesis
    by (simp add: get_market_status_def post_market_status_def Let_def split: option.split)
qed

text \<open>
  C10. When \<open>app_meta\<close> holds no document with key \<open>market_status\<close>, \<open>GET
  /market-status\<close> answers \<open>status: true\<close>. When nothing is stored under the local
  market-status key, the fallback of \<open>getMarketStatus\<close> returns \<open>true\<close>, and so does
  \<open>getMarketStatus\<close> whenever its remote call fails.
\<close>

theorem market_status_defaults_to_open:
  "(findOne (\<lambda>d. meta_key d = ''market_status'') app_meta = None \<longrightarrow>
      get_market_status DbOk app_meta
        = \<lparr>r_status = 200, r_success = Some True, r_error = None, r_message = None,
            r_payload = Some True\<rparr>)
 \<and> (market_status_key b = None \<longrightarrow>
      fst (getMarketStatus_fallback b) = Inr (Bare True)
    \<and> (remote_failed res \<longrightarrow> fst (getMarketStatus env res b) = Inr True))"
proof (intro conjI impI)
  assume "findOne (\<lambda>d. meta_key d = ''market_status'') app_meta = None"
  then show "get_market_status DbOk app_meta
        = \<lparr>r_status = 200, r_success = Some True, r_error = None, r_message = None,
            r_payload = Some True\<rparr>"
    by (simp add: get_market_status_def Let_def)
next
  assume "market_status_key b = None"
  then show "fst (getMarketStatus_fallback b) = Inr (Bare True)"
    by (simp add: getMarketStatus_fallback_def withLatency_def)
next
  assume unset: "market_status_key b = None" and failed: "remote_failed res"
  let ?b1 = "b\<lparr>fetched := fetched b @ [build_url (API_BASE env) ''/market-status'']\<rparr>"
  have "getMarketStatus_fallback ?b1 = (Inr (Bare True), ?b1)"
    using unset by (simp add: getMarketStatus_fallback_def withLatency_def)
  with failed have "tryFetch env ''/market-status'' res (Some getMarketStatus_fallback) b
                      = (Inr (Some (Bare True)), ?b1)"
    by (intro tryFetch_failed_fallback_returns)
  then show "fst (getMarketStatus env res b) = Inr True"
    by (simp add: getMarketStatus_def getMarketStatus_then_def)
qed

theorem market_status_defaults_to_open_witness:
  "findOne (\<lambda>d. meta_key d = ''market_status'') [] = None
 \<and> r_payload (get_market_status DbOk []) = Some True
 \<and> market_status_key \<lparr>harvest_requests_key = None, market_prices_key = None,
      market_status_key = None, fetched = []\<rparr> = None
 \<and> remote_failed (Rejected (Error ''Failed to fetch'') :: bool wire fetch_result)
 \<and> fst (getMarketStatus \<lparr>VITE_API_BASE_URL = None, VITE_API_BASE = None\<rparr>
      (Rejected (Error ''Failed to fetch''))
      \<lparr>harvest_requests_key = None, market_prices_key = None,
        market_status_key = None, fetched = []\<rparr>) = Inr True"
  using market_status_defaults_to_open [where app_meta = "[]"
      and b = "\<lparr>harvest_requests_key = None, market_prices_key = None,
                market_status_key = None, fetched = []\<rparr>"
      and res = "Rejected (Error ''Failed to fetch'')"
      and env = "\<lparr>VITE_API_BASE_URL = None, VITE_API_BASE = None\<rparr>"]
  by (simp add: findOne_def remote_failed_def)

lemma getPricesDb_fetched: "fetched (snd (getPricesDb MOCK b)) = fetched b"
  by (simp add: getPricesDb_cases split: option.split)

lemma getPricesDb_fetched_update:
  "getPricesDb MOCK (b\<lparr>fetched := us\<rparr>)
     = (fst (getPricesDb MOCK b), (snd (getPricesDb MOCK b))\<lparr>fetched := us\<rparr>)"
  by (simp add: getPricesDb_cases split: option.split)

lemma getMarketPrices_fallback_result:
  "getMarketPrices_fallback MOCK b = (Inr (Bare (fst (getPricesDb MOCK b))), snd (getPricesDb MOCK b))"
  by (simp add: getMarketPrices_fallback_def withLatency_def split: prod.split)

text \<open>
  With a fallback that always returns and leaves the log of fetched URLs alone, a call of
  \<open>tryFetch\<close> hands exactly one URL to \<open>fetch\<close>.
\<close>

lemma tryFetch_fetched_total_fallback:
  assumes "\<And>c. \<exists>v. fst (f c) = Inr v" and "\<And>c. fetched (snd (f c)) = fetched c"
  shows "fetched (snd (tryFetch env path res (Some f) b))
           = fetched b @ [build_url (API_BASE env) path]"
proof -
  let ?b1 = "b\<lparr>fetched := fetched b @ [build_url (API_BASE env) path]\<rparr>"
  obtain v b' where fb: "f ?b1 = (Inr v, b')"
    using assms(1) [of ?b1] by (cases "f ?b1") auto
  have b': "fetched b' = fetched ?b1"
    using assms(2) [of ?b1] fb by simp
  show ?thesis
  proof (cases "remote_failed res")
    case True
    then show ?thesis
      using tryFetch_failed_fallback_returns [where res = res and f = f and b = b
          and env = env and path = path and v = v and b' = b'] fb b'
      by simp
  next
    case False
    then obtain st statusText bodyText d
      where "res = Resolved True st statusText bodyText (Some d)"
      by (cases res) (auto simp: remote_failed_def)
    then show ?thesis
      by (simp add: tryFetch_def API_BASE_nonempty Let_def)
  qed
qed

text \<open>
  C2, as the claim states it, fails: with neither variable set, \<open>API_BASE\<close> is the default
  address, so \<open>getMarketPrices\<close> calls \<open>fetch\<close>, and what it returns is the list the
  remote end sent, not the seeded one.
\<close>

theorem getMarketPrices_unset_env_counterexample:
  "fetched (snd (getMarketPrices \<lparr>VITE_API_BASE_URL = None, VITE_API_BASE = None\<rparr>
      [\<lparr>sp_grade = ''Premium'', sp_price = 500, sp_previousPrice = None, sp_updatedAt = None\<rparr>]
      (Resolved True 200 ''OK'' ''[...]''
         (Some (Bare [\<lparr>sp_grade = ''Premium'', sp_price = 480, sp_previousPrice = Some 470,
                        sp_updatedAt = Some 1000\<rparr>])))
      \<lparr>harvest_requests_key = None, market_prices_key = None, market_status_key = None,
        fetched = []\<rparr>))
    = [''http://localhost:4000/market-prices'']
 \<and> fst (getMarketPrices \<lparr>VITE_API_BASE_URL = None, VITE_API_BASE = None\<rparr>
      [\<lparr>sp_grade = ''Premium'', sp_price = 500, sp_previousPrice = None, sp_updatedAt = None\<rparr>]
      (Resolved True 200 ''OK'' ''[...]''
         (Some (Bare [\<lparr>sp_grade = ''Premium'', sp_price = 480, sp_previousPrice = Some 470,
                        sp_updatedAt = Some 1000\<rparr>])))
      \<lparr>harvest_requests_key = None, market_prices_key = None, market_status_key = None,
        fetched = []\<rparr>)
    = Inr [\<lparr>sp_grade = ''Premium'', sp_price = 480, sp_previousPrice = Some 470,
             sp_updatedAt = Some 1000\<rparr>]
 \<and> fst (getMarketPrices \<lparr>VITE_API_BASE_URL = None, VITE_API_BASE = None\<rparr>
      [\<lparr>sp_grade = ''Premium'', sp_price = 500, sp_previousPrice = None, sp_updatedAt = None\<rparr>]
      (Resolved True 200 ''OK'' ''[...]''
         (Some (Bare [\<lparr>sp_grade = ''Premium'', sp_price = 480, sp_previousPrice = Some 470,
                        sp_updatedAt = Some 1000\<rparr>])))
      \<lparr>harvest_requests_key = None, market_prices_key = None, market_status_key = None,
        fetched = []\<rparr>)
    \<noteq> Inr [\<lparr>sp_grade = ''Premium'', sp_price = 500, sp_previousPrice = None,
             sp_updatedAt = None\<rparr>]"
  by (simp add: getMarketPrices_def tryFetch_def API_BASE_unset build_url_localhost Let_def)

text \<open>
  C2, amended. With neither variable set, \<open>API_BASE\<close> is \<open>http://localhost:4000\<close> and
  \<open>getMarketPrices\<close> makes exactly one network call, to
  \<open>http://localhost:4000/market-prices\<close>. When that call fails it returns the price list
  of local persistence, which is the seeded default list when nothing was stored before
  (and the default list is then stored).
\<close>

theorem getMarketPrices_unset_env:
  "API_BASE \<lparr>VITE_API_BASE_URL = None, VITE_API_BASE = None\<rparr> = ''http://localhost:4000''
 \<and> fetched (snd (getMarketPrices \<lparr>VITE_API_BASE_URL = None, VITE_API_BASE = None\<rparr>
                    MOCK res b))
      = fetched b @ [''http://localhost:4000/market-prices'']
 \<and> (remote_failed res \<longrightarrow>
      fst (getMarketPrices \<lparr>VITE_API_BASE_URL = None, VITE_API_BASE = None\<rparr> MOCK res b)
        = Inr (case market_prices_key b of Some db \<Rightarrow> db | None \<Rightarrow> MOCK)
    \<and> market_prices_key
         (snd (getMarketPrices \<lparr>VITE_API_BASE_URL = None, VITE_API_BASE = None\<rparr> MOCK res b))
        = Some (case market_prices_key b of Some db \<Rightarrow> db | None \<Rightarrow> MOCK))"
proof (intro conjI impI)
  let ?env = "\<lparr>VITE_API_BASE_URL = None, VITE_API_BASE = None\<rparr>"
  let ?f = "getMarketPrices_fallback MOCK"
  let ?url = "''http://localhost:4000/market-prices''"
  let ?b1 = "b\<lparr>fetched := fetched b @ [?url]\<rparr>"
  show "API_BASE ?env = ''http://localhost:4000''"
    by (rule API_BASE_unset)
  have url: "build_url (API_BASE ?env) ''/market-prices'' = ?url"
    by (simp add: API_BASE_unset build_url_localhost)
  have "fetched (snd (tryFetch ?env ''/market-prices'' res (Some ?f) b))
          = fetched b @ [build_url (API_BASE ?env) ''/market-prices'']"
    by (rule tryFetch_fetched_total_fallback)
       (simp_all add: getMarketPrices_fallback_result getPricesDb_fetched)
  then have log: "fetched (snd (tryFetch ?env ''/market-prices'' res (Some ?f) b))
                    = fetched b @ [?url]"
    by (simp only: url)
  have no_throw: "fst (tryFetch ?env ''/market-prices'' res (Some ?f) b) \<noteq> Inl e" for e
  proof (cases "remote_failed res")
    case True
    show ?thesis
      using tryFetch_failed_fallback_returns [where res = res and f = ?f and b = b
          and env = ?env and path = "''/market-prices''"] True
      by (simp add: getMarketPrices_fallback_result)
  next
    case False
    then obtain st statusText bodyText d
      where "res = Resolved True st statusText bodyText (Some d)"
      by (cases res) (auto simp: remote_failed_def)
    then show ?thesis
      by (simp add: tryFetch_def API_BASE_nonempty Let_def)
  qed
  show "fetched (snd (getMarketPrices ?env MOCK res b)) = fetched b @ [?url]"
  proof (cases "tryFetch ?env ''/market-prices'' res (Some ?f) b")
    case (Pair r b')
    with log have b': "fetched b' = fetched b @ [?url]"
      by simp
    show ?thesis
    proof (cases r)
      case (Inl e)
      with Pair b' show ?thesis
        by (simp add: getMarketPrices_def)
    next
      case (Inr w)
      with Pair b' show ?thesis
        by (auto simp: getMarketPrices_def getPricesDb_fetched
              split: option.split wire.split prod.split)
          (metis getPricesDb_fetched snd_conv)+
    qed
  qed
  assume failed: "remote_failed res"
  have fb: "?f (b\<lparr>fetched := fetched b @ [build_url (API_BASE ?env) ''/market-prices'']\<rparr>)
              = (Inr (Bare (fst (getPricesDb MOCK b))),
                 (snd (getPricesDb MOCK b))\<lparr>fetched := fetched b @ [?url]\<rparr>)"
    by (simp add: getMarketPrices_fallback_result getPricesDb_fetched_update url)
  have run: "getMarketPrices ?env MOCK res b
               = (Inr (fst (getPricesDb MOCK b)),
                  (snd (getPricesDb MOCK b))\<lparr>fetched := fetched b @ [?url]\<rparr>)"
    using tryFetch_failed_fallback_returns [where res = res and f = ?f and b = b
        and env = ?env and path = "''/market-prices''"] failed fb
    by (simp add: getMarketPrices_def)
  show "fst (getMarketPrices ?env MOCK res b)
          = Inr (case market_prices_key b of Some db \<Rightarrow> db | None \<Rightarrow> MOCK)"
    by (simp add: run getPricesDb_cases split: option.split)
  show "market_prices_key (snd (getMarketPrices ?env MOCK res b))
          = Some (case market_prices_key b of Some db \<Rightarrow> db | None \<Rightarrow> MOCK)"
    by (simp add: run getPricesDb_cases split: option.split)
qed

theorem getMarketPrices_unset_env_witness:
  "remote_failed (Rejected (Error ''Failed to fetch'') :: ShrimpPrice list wire fetch_result)
 \<and> getMarketPrices \<lparr>VITE_API_BASE_URL = None, VITE_API_BASE = None\<rparr>
      [\<lparr>sp_grade = ''Premium'', sp_price = 500, sp_previousPrice = None, sp_updatedAt = None\<rparr>]
      (Rejected (Error ''Failed to fetch''))
      \<lparr>harvest_requests_key = None, market_prices_key = None, market_status_key = None,
        fetched = []\<rparr>
    = (Inr [\<lparr>sp_grade = ''Premium'', sp_price = 500, sp_previousPrice = None,
              sp_updatedAt = None\<rparr>],
       \<lparr>harvest_requests_key = None,
         market_prices_key = Some [\<lparr>sp_grade = ''Premium'', sp_price = 500,
                                   sp_previousPrice = None, sp_updatedAt = None\<rparr>],
         market_status_key = None,
         fetched = [''http://localhost:4000/market-prices'']\<rparr>)"
proof -
  let ?env = "\<lparr>VITE_API_BASE_URL = None, VITE_API_BASE = None\<rparr>"
  let ?mock = "[\<lparr>sp_grade = ''Premium'', sp_price = 500, sp_previousPrice = None,
                  sp_updatedAt = None\<rparr>]"
  let ?res = "Rejected (Error ''Failed to fetch'') :: ShrimpPrice list wire fetch_result"
  let ?b0 = "\<lparr>harvest_requests_key = None, market_prices_key = None, market_status_key = None,
               fetched = []\<rparr>"
  let ?out = "getMarketPrices ?env ?mock ?res ?b0"
  have failed: "remote_failed ?res"
    by (simp add: remote_failed_def)
  have other: "harvest_requests_key (snd ?out) = None \<and> market_status_key (snd ?out) = None"
    by (simp add: getMarketPrices_def tryFetch_def API_BASE_unset Let_def tryFetch_catch_def
          getMarketPrices_fallback_result getPricesDb_cases)
  have "fst ?out = Inr ?mock \<and> market_prices_key (snd ?out) = Some ?mock
        \<and> fetched (snd ?out) = [''http://localhost:4000/market-prices'']"
    using getMarketPrices_unset_env [where MOCK = ?mock and res = ?res and b = ?b0] failed
    by simp
  with other have "?out = (Inr ?mock, \<lparr>harvest_requests_key = None,
         market_prices_key = Some ?mock, market_status_key = None,
         fetched = [''http://localhost:4000/market-prices'']\<rparr>)"
    by (cases ?out) simp
  with failed show ?thesis
    by simp
qed

text \<open>
  C3. The code at the failing input: the server answers 404 to a status update of a request
  it does not know, the local list does not know the request either, so the fallback throws
  \<open>Request not found\<close>; the operation rejects with that error of the fallback. The same
  holds for \<open>updateMarketPrice\<close> on a 500 and on a body that does not parse. Only when
  \<open>fetch\<close> itself rejects does the operation reject with the network error.
\<close>

theorem fallback_error_surfaces_on_failed_response:
  "fst (updateHarvestRequestStatus \<lparr>VITE_API_BASE_URL = None, VITE_API_BASE = None\<rparr>
      ''req_1'' ''req_1'' ''Approved''
      (Resolved False 404 ''Not Found'' ''{...}''
         (Some (Enveloped False None)))
      \<lparr>harvest_requests_key = None, market_prices_key = None, market_status_key = None,
        fetched = []\<rparr>)
    = Inl (Error ''Request not found'')
 \<and> fst (updateMarketPrice \<lparr>VITE_API_BASE_URL = None, VITE_API_BASE = None\<rparr>
      [\<lparr>sp_grade = ''Premium'', sp_price = 500, sp_previousPrice = None, sp_updatedAt = None\<rparr>]
      ''Jumbo'' 300
      (Resolved False 500 ''Internal Server Error'' ''{...}'' (Some (Enveloped False None)))
      \<lparr>harvest_requests_key = None, market_prices_key = None, market_status_key = None,
        fetched = []\<rparr>)
    = Inl (Error ''Price for grade not found'')
 \<and> fst (updateMarketPrice \<lparr>VITE_API_BASE_URL = None, VITE_API_BASE = None\<rparr>
      [\<lparr>sp_grade = ''Premium'', sp_price = 500, sp_previousPrice = None, sp_updatedAt = None\<rparr>]
      ''Jumbo'' 300
      (Resolved True 200 ''OK'' ''<html>'' None)
      \<lparr>harvest_requests_key = None, market_prices_key = None, market_status_key = None,
        fetched = []\<rparr>)
    = Inl (Error ''Price for grade not found'')
 \<and> fst (updateMarketPrice \<lparr>VITE_API_BASE_URL = None, VITE_API_BASE = None\<rparr>
      [\<lparr>sp_grade = ''Premium'', sp_price = 500, sp_previousPrice = None, sp_updatedAt = None\<rparr>]
      ''Jumbo'' 300
      (Rejected (Error ''Failed to fetch''))
      \<lparr>harvest_requests_key = None, market_prices_key = None, market_status_key = None,
        fetched = []\<rparr>)
    = Inl (Error ''Failed to fetch'')"
  by (simp add: updateHarvestRequestStatus_def updateHarvestRequestStatus_fallback_def
        updateMarketPrice_def updateMarketPrice_fallback_def getDb_def getPricesDb_cases
        tryFetch_def tryFetch_catch_def tryFetch_fallback_in_try_def API_BASE_unset Let_def)

end
